theory Spec2Isabelle
  imports Complex_Main "HOL-Library.Sublist"
begin

section \<open>The TF-IDF vector store (src/database/vector_store.py)\<close>

text \<open>
  A shallow embedding of the class \<open>VectorStore\<close>. The object's fields are a record that
  every method takes and returns; the three artifact files are a second record; what a
  method logs and which external calls it makes are returned as a list of events. Every
  \<open>try\<close>/\<open>except Exception\<close> of the source is a case distinction on a sum value.

  The scikit-learn and numpy functions the class calls are not part of the repository.
  They are taken as parameters (the record \<open>sklearn\<close>): nothing is assumed of them beyond
  their types, and a theorem that needs a property of one of them says so in a premise.

  One fact about numpy is part of the model, because the class depends on it on every
  run: \<open>np.save\<close> writes a scipy sparse matrix (what \<open>fit_transform\<close> returns) as a pickled
  object array, and \<open>np.load\<close>, called as the source calls it with the default
  \<open>allow_pickle=False\<close>, raises \<open>ValueError\<close> on such a file. A matrix is therefore either
  sparse or a plain array, in memory and on disk.

  Similarities are 64-bit floats in the source. The class only compares them with each
  other and with zero, so they are modelled as reals, whose order agrees with that of the
  finite floats; NaN is not modelled.
\<close>

subsection \<open>Data\<close>

datatype error =
    FileNotFoundError | PermissionError | IsADirectoryError | UnicodeDecodeError
  | CorruptArtifact | ValueError | NotFittedError | IndexError | OSError

text \<open>The dictionaries appended to \<open>document_data\<close>, and those that \<open>query\<close> returns: the
  same three keys, and \<open>similarity\<close>.\<close>

record metadata =
  source :: string

record document =
  id' :: string
  content :: string
  metadata :: metadata

record result = document +
  similarity :: real

text \<open>A matrix, as the list of its rows \<open>'r\<close>: the scipy sparse matrix that \<open>fit_transform\<close>
  returns, or the numpy array that \<open>np.load\<close> returns.\<close>

datatype 'r matrix = csr_matrix "'r list" | ndarray "'r list"

fun rows :: "'r matrix \<Rightarrow> 'r list" where
  "rows (csr_matrix rs) = rs"
| "rows (ndarray rs) = rs"

text \<open>The fields of the object. \<open>vectors\<close> is \<open>None\<close> or a matrix; \<open>'m\<close> is the vectorizer
  object.\<close>

record ('m, 'r) VectorStore =
  vectorizer :: 'm
  document_data :: "document list"
  vectors :: "'r matrix option"

text \<open>The library: \<open>TfidfVectorizer(stop_words='english')\<close>, its methods \<open>fit_transform\<close>
  (which changes the vectorizer in place, also when it raises) and \<open>transform\<close>,
  \<open>cosine_similarity(...).flatten()\<close>, and \<open>argsort\<close> of a one-dimensional array.\<close>

record ('m, 'q, 'r) sklearn =
  TfidfVectorizer :: 'm
  fit_transform :: "'m \<Rightarrow> string list \<Rightarrow> 'm \<times> (error + 'r list)"
  transform :: "'m \<Rightarrow> string \<Rightarrow> error + 'q"
  cosine_similarity :: "'q \<Rightarrow> 'r list \<Rightarrow> error + real list"
  argsort :: "real list \<Rightarrow> nat list"

text \<open>One artifact file: missing, present with content that no deserialiser reads
  (truncated, or not of the format), or holding the serialisation of a value. The vectors
  file that holds a sparse matrix is the pickled object array: it is on the disk, and
  \<open>np_load\<close> below refuses it.\<close>

datatype 'a artifact = Absent | Corrupt | Stored 'a

record ('m, 'r) disk =
  vectorizer_path :: "'m artifact"
  documents_path :: "document list artifact"
  vectors_path :: "'r matrix artifact"

text \<open>How one write to an artifact ends: it succeeds, \<open>open\<close> raises (the file is left as
  it was), or the dump raises after the file was opened for writing (the file is left
  truncated).\<close>

datatype write_outcome = Succeeds | OpenFails error | DumpFails error

text \<open>A file of the corpus directory: \<open>open\<close> or \<open>read\<close> raises, or the decoded text.\<close>

datatype chunk_file = Unreadable error | Readable string

datatype level = INFO | WARNING | ERROR

datatype message =
    Loaded_existing_model | Created_new_model
  | Loaded_from_disk nat | Error_loading_model error
  | Saved_to_disk nat | Error_saving_model error
  | Already_contains nat | Force_reloading | Found_chunk_files nat
  | Error_reading_file string error | Loaded_into_store nat | No_documents_loaded
  | Store_is_empty | Error_querying error

datatype event =
    Log level message
  | Glob string
  | Open_read string
  | Fit_transform "string list"
  | Open_write_vectorizer | Open_write_documents | Open_write_vectors

subsection \<open>Python's string and slice operations\<close>

text \<open>\<open>str.isspace\<close> on the code points below 256, \<open>str.strip()\<close>, \<open>os.path.basename\<close>,
  \<open>os.path.join\<close> of two parts, \<open>str.replace(old, "")\<close> and the slice \<open>xs[-n:]\<close>.\<close>

definition isspace :: "char \<Rightarrow> bool" where
  "isspace c =
     (let n = (of_char c :: nat)
      in (9 \<le> n \<and> n \<le> 13) \<or> (28 \<le> n \<and> n \<le> 32) \<or> n = 133 \<or> n = 160)"

definition strip :: "string \<Rightarrow> string" where
  "strip s = rev (dropWhile isspace (rev (dropWhile isspace s)))"

fun basename :: "string \<Rightarrow> string" where
  "basename [] = []"
| "basename (c # cs) = (if CHR ''/'' \<in> set cs then basename cs
                        else if c = CHR ''/'' then cs else c # cs)"

definition join :: "string \<Rightarrow> string \<Rightarrow> string" where
  "join a b =
     (if b \<noteq> [] \<and> hd b = CHR ''/'' then b
      else if a = [] \<or> last a = CHR ''/'' then a @ b
      else a @ ''/'' @ b)"

fun startswith :: "string \<Rightarrow> string \<Rightarrow> bool" where
  "startswith s [] = True"
| "startswith [] (p # ps) = False"
| "startswith (c # cs) (p # ps) = (c = p \<and> startswith cs ps)"

definition endswith :: "string \<Rightarrow> string \<Rightarrow> bool" where
  "endswith s p = startswith (rev s) (rev p)"

function remove_all :: "string \<Rightarrow> string \<Rightarrow> string" where
  "remove_all old [] = []"
| "remove_all old (c # cs) =
     (if old \<noteq> [] \<and> startswith (c # cs) old
      then remove_all old (drop (length old) (c # cs))
      else c # remove_all old cs)"
  by pat_completeness auto
termination
  by (relation "measure (\<lambda>(old, s). length s)") (auto simp: neq_Nil_conv)

definition slice_last :: "int \<Rightarrow> 'a list \<Rightarrow> 'a list" where
  "slice_last n xs =
     (if 0 < n then drop (length xs - nat n) xs else drop (nat (- n)) xs)"

subsection \<open>Construction, load_model and save_model\<close>

definition exists :: "'a artifact \<Rightarrow> bool" where
  "exists a = (a \<noteq> Absent)"

definition empty_store :: "('m, 'q, 'r) sklearn \<Rightarrow> ('m, 'r) VectorStore" where
  "empty_store L = \<lparr>vectorizer = TfidfVectorizer L, document_data = [], vectors = None\<rparr>"

text \<open>Reading the vectorizer with \<open>pickle.load\<close> and the records with \<open>json.load\<close>: \<open>open\<close>
  raises on a missing file, the deserialiser on a corrupt one.\<close>

fun load :: "'a artifact \<Rightarrow> error + 'a" where
  "load Absent = Inl FileNotFoundError"
| "load Corrupt = Inl CorruptArtifact"
| "load (Stored x) = Inr x"

text \<open>Reading the matrix with \<open>np.load(self.vectors_path)\<close>: a numeric file gives its array;
  a pickled object array raises \<open>ValueError\<close>, pickles not being allowed.\<close>

fun np_load :: "'r matrix artifact \<Rightarrow> error + 'r matrix" where
  "np_load Absent = Inl FileNotFoundError"
| "np_load Corrupt = Inl CorruptArtifact"
| "np_load (Stored (ndarray rs)) = Inr (ndarray rs)"
| "np_load (Stored (csr_matrix rs)) = Inl ValueError"

definition load_failed ::
  "('m, 'q, 'r) sklearn \<Rightarrow> ('m, 'r) VectorStore \<Rightarrow> error
     \<Rightarrow> ('m, 'r) VectorStore \<times> event list" where
  "load_failed L self e =
     (self\<lparr>vectorizer := TfidfVectorizer L, document_data := [], vectors := None\<rparr>,
      [Log ERROR (Error_loading_model e)])"

definition load_model ::
  "('m, 'q, 'r) sklearn \<Rightarrow> ('m, 'r) VectorStore \<Rightarrow> ('m, 'r) disk
     \<Rightarrow> ('m, 'r) VectorStore \<times> event list" where
  "load_model L self dk =
     (case load (vectorizer_path dk) of
        Inl e \<Rightarrow> load_failed L self e
      | Inr m \<Rightarrow>
         (case load (documents_path dk) of
            Inl e \<Rightarrow> load_failed L (self\<lparr>vectorizer := m\<rparr>) e
          | Inr d \<Rightarrow>
             (case np_load (vectors_path dk) of
                Inl e \<Rightarrow> load_failed L (self\<lparr>vectorizer := m, document_data := d\<rparr>) e
              | Inr v \<Rightarrow>
                  (self\<lparr>vectorizer := m, document_data := d, vectors := Some v\<rparr>,
                   [Log INFO (Loaded_from_disk (length d))]))))"

text \<open>\<open>__init__\<close>. Before \<open>load_model\<close> runs the object has no fields yet; the model passes
  the empty store, every field of which \<open>load_model\<close> overwrites on each of its paths.\<close>

definition init ::
  "('m, 'q, 'r) sklearn \<Rightarrow> ('m, 'r) disk \<Rightarrow> ('m, 'r) VectorStore \<times> event list" where
  "init L dk =
     (if exists (vectorizer_path dk) \<and> exists (documents_path dk) \<and> exists (vectors_path dk)
      then (case load_model L (empty_store L) dk of
              (self, evs) \<Rightarrow> (self, evs @ [Log INFO Loaded_existing_model]))
      else (empty_store L, [Log INFO Created_new_model]))"

text \<open>One write (\<open>pickle.dump\<close>, \<open>json.dump\<close> or \<open>np.save\<close>): the file afterwards, and the
  exception if one was raised. A write that succeeds leaves the serialisation of the
  value; for a sparse matrix that is a file \<open>np_load\<close> does not read back.\<close>

fun write_artifact :: "write_outcome \<Rightarrow> 'a \<Rightarrow> 'a artifact \<Rightarrow> 'a artifact \<times> error option" where
  "write_artifact Succeeds x old = (Stored x, None)"
| "write_artifact (OpenFails e) x old = (old, Some e)"
| "write_artifact (DumpFails e) x old = (Corrupt, Some e)"

text \<open>\<open>save_model\<close>; \<open>w1\<close>, \<open>w2\<close>, \<open>w3\<close> say how the three writes would end. The object is
  not an output: the method assigns to none of its fields.\<close>

definition save_model ::
  "write_outcome \<Rightarrow> write_outcome \<Rightarrow> write_outcome \<Rightarrow> ('m, 'r) VectorStore
     \<Rightarrow> ('m, 'r) disk \<Rightarrow> ('m, 'r) disk \<times> event list" where
  "save_model w1 w2 w3 self dk =
     (case write_artifact w1 (vectorizer self) (vectorizer_path dk) of
        (f1, Some e) \<Rightarrow>
          (dk\<lparr>vectorizer_path := f1\<rparr>,
           [Open_write_vectorizer, Log ERROR (Error_saving_model e)])
      | (f1, None) \<Rightarrow>
         (case write_artifact w2 (document_data self) (documents_path dk) of
            (f2, Some e) \<Rightarrow>
              (dk\<lparr>vectorizer_path := f1, documents_path := f2\<rparr>,
               [Open_write_vectorizer, Open_write_documents,
                Log ERROR (Error_saving_model e)])
          | (f2, None) \<Rightarrow>
             (case vectors self of
                None \<Rightarrow>
                  (dk\<lparr>vectorizer_path := f1, documents_path := f2\<rparr>,
                   [Open_write_vectorizer, Open_write_documents,
                    Log INFO (Saved_to_disk (length (document_data self)))])
              | Some v \<Rightarrow>
                 (case write_artifact w3 v (vectors_path dk) of
                    (f3, Some e) \<Rightarrow>
                      (dk\<lparr>vectorizer_path := f1, documents_path := f2, vectors_path := f3\<rparr>,
                       [Open_write_vectorizer, Open_write_documents, Open_write_vectors,
                        Log ERROR (Error_saving_model e)])
                  | (f3, None) \<Rightarrow>
                      (dk\<lparr>vectorizer_path := f1, documents_path := f2, vectors_path := f3\<rparr>,
                       [Open_write_vectorizer, Open_write_documents, Open_write_vectors,
                        Log INFO (Saved_to_disk (length (document_data self)))])))))"

subsection \<open>load_documents\<close>

definition count :: "('m, 'r) VectorStore \<Rightarrow> nat" where
  "count self = length (document_data self)"

text \<open>\<open>glob.glob(os.path.join(DOCS_DIR, "me_chunk_*.txt"))\<close> over a directory given as the
  list of its entries, in the order the file system enumerates them. \<open>DOCS_DIR\<close> is a
  parameter (the source computes it from the location of the module) and is taken to
  contain no wildcard character.\<close>

definition fnmatch :: "string \<Rightarrow> bool" where
  "fnmatch name = (startswith name ''me_chunk_'' \<and> endswith (drop 9 name) ''.txt'')"

definition glob :: "string \<Rightarrow> (string \<times> chunk_file) list \<Rightarrow> (string \<times> chunk_file) list" where
  "glob DOCS_DIR entries =
     map (\<lambda>(name, f). (join DOCS_DIR name, f)) (filter (\<lambda>(name, f). fnmatch name) entries)"

text \<open>The loop over \<open>chunk_files\<close>, with the two lists it appends to.\<close>

fun read_chunk_files ::
  "(string \<times> chunk_file) list \<Rightarrow> string list \<Rightarrow> document list \<Rightarrow> event list
     \<Rightarrow> string list \<times> document list \<times> event list" where
  "read_chunk_files [] documents document_data' evs = (documents, document_data', evs)"
| "read_chunk_files ((file_path, f) # rest) documents document_data' evs =
     (let file_id = remove_all ''.txt'' (basename file_path)
      in case f of
           Unreadable e \<Rightarrow>
             read_chunk_files rest documents document_data'
               (evs @ [Open_read file_path, Log ERROR (Error_reading_file file_path e)])
         | Readable raw \<Rightarrow>
             (let content' = strip raw
              in if content' \<noteq> []
                 then read_chunk_files rest (documents @ [content'])
                        (document_data' @
                           [\<lparr>id' = file_id, content = content',
                             metadata = \<lparr>source = file_path\<rparr>\<rparr>])
                        (evs @ [Open_read file_path])
                 else read_chunk_files rest documents document_data'
                        (evs @ [Open_read file_path])))"

text \<open>\<open>load_documents\<close> returns the exception that leaves it (\<open>None\<close> when it returns
  normally), the object, the disk and the events. Of the calls that can raise, only
  \<open>fit_transform\<close> is outside a \<open>try\<close>.\<close>

definition load_documents ::
  "('m, 'q, 'r) sklearn \<Rightarrow> string \<Rightarrow> (string \<times> chunk_file) list
     \<Rightarrow> write_outcome \<Rightarrow> write_outcome \<Rightarrow> write_outcome
     \<Rightarrow> bool \<Rightarrow> ('m, 'r) VectorStore \<Rightarrow> ('m, 'r) disk
     \<Rightarrow> error option \<times> ('m, 'r) VectorStore \<times> ('m, 'r) disk \<times> event list" where
  "load_documents L DOCS_DIR entries w1 w2 w3 force_reload self dk =
     (if \<not> force_reload \<and> 0 < count self
      then (None, self, dk, [Log INFO (Already_contains (count self))])
      else
        (let self1 = (if force_reload then self\<lparr>document_data := [], vectors := None\<rparr>
                      else self);
             evs1 = (if force_reload then [Log INFO Force_reloading] else []);
             chunk_files = glob DOCS_DIR entries;
             evs2 = evs1 @ [Glob (join DOCS_DIR ''me_chunk_*.txt''),
                            Log INFO (Found_chunk_files (length chunk_files))]
         in case read_chunk_files chunk_files [] [] evs2 of
              (documents, document_data', evs3) \<Rightarrow>
                if documents \<noteq> []
                then
                  (case fit_transform L (vectorizer self1) documents of
                     (m, Inl e) \<Rightarrow>
                       (Some e, self1\<lparr>vectorizer := m\<rparr>, dk, evs3 @ [Fit_transform documents])
                   | (m, Inr v) \<Rightarrow>
                       (let self2 = self1\<lparr>vectorizer := m, vectors := Some (csr_matrix v),
                                           document_data := document_data'\<rparr>
                        in case save_model w1 w2 w3 self2 dk of
                             (dk', evs4) \<Rightarrow>
                               (None, self2, dk',
                                evs3 @ [Fit_transform documents] @ evs4 @
                                  [Log INFO (Loaded_into_store (length documents))])))
                else (None, self1, dk, evs3 @ [Log WARNING No_documents_loaded])))"

subsection \<open>query\<close>

text \<open>The loop over \<open>top_indices\<close>. An index outside \<open>similarities\<close> or outside
  \<open>document_data\<close> raises \<open>IndexError\<close>, which ends the loop.\<close>

definition result_of :: "document \<Rightarrow> real \<Rightarrow> result" where
  "result_of doc s =
     \<lparr>id' = id' doc, content = content doc, metadata = metadata doc, similarity = s\<rparr>"

fun collect_results :: "real list \<Rightarrow> document list \<Rightarrow> nat list \<Rightarrow> error + result list" where
  "collect_results similarities docs [] = Inr []"
| "collect_results similarities docs (idx # rest) =
     (if length similarities \<le> idx then Inl IndexError
      else if 0 < similarities ! idx
      then (if length docs \<le> idx then Inl IndexError
            else (case collect_results similarities docs rest of
                    Inl e \<Rightarrow> Inl e
                  | Inr results \<Rightarrow>
                      Inr (result_of (docs ! idx) (similarities ! idx) # results)))
      else collect_results similarities docs rest)"

definition top_indices :: "('m, 'q, 'r) sklearn \<Rightarrow> real list \<Rightarrow> int \<Rightarrow> nat list" where
  "top_indices L similarities n_results = rev (slice_last n_results (argsort L similarities))"

definition query_failed :: "error \<Rightarrow> result list \<times> event list" where
  "query_failed e = ([], [Log ERROR (Error_querying e)])"

definition query ::
  "('m, 'q, 'r) sklearn \<Rightarrow> ('m, 'r) VectorStore \<Rightarrow> string \<Rightarrow> int
     \<Rightarrow> result list \<times> event list" where
  "query L self query_text n_results =
     (case vectors self of
        None \<Rightarrow> ([], [Log WARNING Store_is_empty])
      | Some v \<Rightarrow>
          if document_data self = [] then ([], [Log WARNING Store_is_empty])
          else
            (case transform L (vectorizer self) query_text of
               Inl e \<Rightarrow> query_failed e
             | Inr query_vector \<Rightarrow>
                (case cosine_similarity L query_vector (rows v) of
                   Inl e \<Rightarrow> query_failed e
                 | Inr similarities \<Rightarrow>
                    (case collect_results similarities (document_data self)
                            (top_indices L similarities n_results) of
                       Inl e \<Rightarrow> query_failed e
                     | Inr results \<Rightarrow> (results, [])))))"

subsection \<open>An instance of the library\<close>

text \<open>For evaluating the model on concrete inputs: a vectorizer that is only fitted or
  not, a row that is the document's text, and as similarity the length of the common
  prefix of query and document over the length of the longer of the two. Its \<open>argsort\<close>
  is the stable one.\<close>

fun common_prefix :: "string \<Rightarrow> string \<Rightarrow> nat" where
  "common_prefix (a # as) (b # bs) = (if a = b then Suc (common_prefix as bs) else 0)"
| "common_prefix as bs = 0"

definition prefix_similarity :: "string \<Rightarrow> string \<Rightarrow> real" where
  "prefix_similarity q r = real (common_prefix q r) / real (max (length q) (length r))"

definition stable_argsort :: "real list \<Rightarrow> nat list" where
  "stable_argsort xs = map snd (sort_key fst (zip xs [0..<length xs]))"

definition prefix_lib :: "(bool, string, string) sklearn" where
  "prefix_lib =
     \<lparr>TfidfVectorizer = False,
      fit_transform = (\<lambda>m docs. (True, Inr docs)),
      transform = (\<lambda>m q. if m then Inr q else Inl NotFittedError),
      cosine_similarity = (\<lambda>q rs. Inr (map (prefix_similarity q) rs)),
      argsort = stable_argsort\<rparr>"

subsection \<open>Specification-level notions and sample inputs\<close>

text \<open>What a complete artifact set holds: the object that loading it gives, or \<open>None\<close> when
  one of the three artifacts is missing or cannot be deserialised (for the vectors file:
  when it is missing, corrupt, or a pickled sparse matrix).\<close>

definition loaded :: "('m, 'r) disk \<Rightarrow> ('m, 'r) VectorStore option" where
  "loaded dk =
     (case vectorizer_path dk of
        Stored m \<Rightarrow>
          (case documents_path dk of
             Stored d \<Rightarrow>
               (case vectors_path dk of
                  Stored (ndarray v) \<Rightarrow>
                    Some \<lparr>vectorizer = m, document_data = d, vectors = Some (ndarray v)\<rparr>
                | _ \<Rightarrow> None)
           | _ \<Rightarrow> None)
      | _ \<Rightarrow> None)"

text \<open>The invariant of the data model: the matrix has one row for each document record.
  An object without a matrix is consistent when it has no records either.\<close>

definition consistent :: "('m, 'r) VectorStore \<Rightarrow> bool" where
  "consistent self =
     (case vectors self of
        None \<Rightarrow> document_data self = []
      | Some v \<Rightarrow> length (rows v) = length (document_data self))"

text \<open>The record that the corpus loader is to create for one matching file: none for a
  file that cannot be read or whose text is empty after trimming.\<close>

definition document_record :: "string \<times> chunk_file \<Rightarrow> document option" where
  "document_record pf =
     (case snd pf of
        Unreadable e \<Rightarrow> None
      | Readable raw \<Rightarrow>
          if strip raw = [] then None
          else Some \<lparr>id' = remove_all ''.txt'' (basename (fst pf)), content = strip raw,
                     metadata = \<lparr>source = fst pf\<rparr>\<rparr>)"

text \<open>What the loop over the chunk files does to each of them, as events; the events of
  the whole scan; and the object after the reset of a forced reload.\<close>

fun chunk_events :: "(string \<times> chunk_file) list \<Rightarrow> event list" where
  "chunk_events [] = []"
| "chunk_events ((p, Unreadable e) # fs) =
     Open_read p # Log ERROR (Error_reading_file p e) # chunk_events fs"
| "chunk_events ((p, Readable raw) # fs) = Open_read p # chunk_events fs"

definition scan_events :: "string \<Rightarrow> (string \<times> chunk_file) list \<Rightarrow> bool \<Rightarrow> event list" where
  "scan_events DOCS_DIR entries force_reload =
     (if force_reload then [Log INFO Force_reloading] else []) @
     [Glob (join DOCS_DIR ''me_chunk_*.txt''),
      Log INFO (Found_chunk_files (length (glob DOCS_DIR entries)))] @
     chunk_events (glob DOCS_DIR entries)"

definition reset :: "bool \<Rightarrow> ('m, 'r) VectorStore \<Rightarrow> ('m, 'r) VectorStore" where
  "reset force_reload self =
     (if force_reload then self\<lparr>document_data := [], vectors := None\<rparr> else self)"

definition sample_entries :: "(string \<times> chunk_file) list" where
  "sample_entries =
     [(''me_chunk_1.txt'', Readable '' fever ''),
      (''notes.txt'', Readable ''cough''),
      (''me_chunk_2.txt'', Unreadable PermissionError),
      (''me_chunk_3.txt'', Readable ''   ''),
      (''me_chunk_4.txt'', Readable ''feve'')]"

definition unusable_entries :: "(string \<times> chunk_file) list" where
  "unusable_entries =
     [(''notes.txt'', Readable ''cough''),
      (''me_chunk_2.txt'', Unreadable PermissionError),
      (''me_chunk_3.txt'', Readable ''   '')]"

definition no_artifacts :: "(bool, string) disk" where
  "no_artifacts = \<lparr>vectorizer_path = Absent, documents_path = Absent, vectors_path = Absent\<rparr>"

definition chunk :: "string \<Rightarrow> string \<Rightarrow> document" where
  "chunk name text =
     \<lparr>id' = name, content = text,
      metadata = \<lparr>source = ''/docs/clean/'' @ name @ ''.txt''\<rparr>\<rparr>"

text \<open>An artifact set whose vectors file is a numeric array (one that was not written by
  \<open>save_model\<close> from a fitted index), the object that loading it gives, and an artifact set
  of the same kind with one record and two rows.\<close>

definition fever_store :: "(bool, string) VectorStore" where
  "fever_store =
     \<lparr>vectorizer = True,
      document_data = [chunk ''me_chunk_1'' ''fever'', chunk ''me_chunk_4'' ''feve''],
      vectors = Some (ndarray [''fever'', ''feve''])\<rparr>"

definition fever_disk :: "(bool, string) disk" where
  "fever_disk =
     \<lparr>vectorizer_path = Stored True,
      documents_path = Stored [chunk ''me_chunk_1'' ''fever'', chunk ''me_chunk_4'' ''feve''],
      vectors_path = Stored (ndarray [''fever'', ''feve''])\<rparr>"

definition mismatched_disk :: "(bool, string) disk" where
  "mismatched_disk =
     \<lparr>vectorizer_path = Stored True,
      documents_path = Stored [chunk ''me_chunk_1'' ''fever''],
      vectors_path = Stored (ndarray [''fever'', ''feve''])\<rparr>"

text \<open>The object that \<open>load_documents\<close> builds from \<open>sample_entries\<close>, and the artifact set
  that its \<open>save_model\<close> writes when every write succeeds.\<close>

definition indexed_store :: "(bool, string) VectorStore" where
  "indexed_store =
     \<lparr>vectorizer = True,
      document_data = [chunk ''me_chunk_1'' ''fever'', chunk ''me_chunk_4'' ''feve''],
      vectors = Some (csr_matrix [''fever'', ''feve''])\<rparr>"

definition indexed_disk :: "(bool, string) disk" where
  "indexed_disk =
     \<lparr>vectorizer_path = Stored True,
      documents_path = Stored [chunk ''me_chunk_1'' ''fever'', chunk ''me_chunk_4'' ''feve''],
      vectors_path = Stored (csr_matrix [''fever'', ''feve''])\<rparr>"

text \<open>Two runs: the index is built from \<open>sample_entries\<close> by a new store on an empty disk,
  every write succeeding; then the corpus has no usable file left and the same store
  reloads with \<open>force_reload\<close>.\<close>

definition first_build ::
  "error option \<times> (bool, string) VectorStore \<times> (bool, string) disk \<times> event list" where
  "first_build =
     load_documents prefix_lib ''/docs/clean'' sample_entries Succeeds Succeeds Succeeds
       False (fst (init prefix_lib no_artifacts)) no_artifacts"

definition reload_of_emptied_corpus ::
  "error option \<times> (bool, string) VectorStore \<times> (bool, string) disk \<times> event list" where
  "reload_of_emptied_corpus =
     load_documents prefix_lib ''/docs/clean'' unusable_entries Succeeds Succeeds Succeeds
       True (fst (snd first_build)) (fst (snd (snd first_build)))"

definition tie_store :: "(bool, string) VectorStore" where
  "tie_store =
     \<lparr>vectorizer = True,
      document_data = [chunk ''me_chunk_1'' ''cough dry'', chunk ''me_chunk_2'' ''cough wet''],
      vectors = Some (csr_matrix [''cough dry'', ''cough wet''])\<rparr>"


definition tie_similarities :: "real list" where
  "tie_similarities = [5 / 9, 5 / 9]"

section \<open>Loading and saving the index\<close>

lemma load_model_loaded:
  "fst (load_model L self dk) = (case loaded dk of Some s \<Rightarrow> s | None \<Rightarrow> empty_store L)"
  by (cases "vectorizer_path dk"; cases "documents_path dk";
      cases "vectors_path dk" rule: np_load.cases)
     (simp_all add: load_model_def load_failed_def loaded_def empty_store_def)

lemma init_loaded:
  "fst (init L dk) = (case loaded dk of Some s \<Rightarrow> s | None \<Rightarrow> empty_store L)"
  by (cases "vectorizer_path dk"; cases "documents_path dk";
      cases "vectors_path dk" rule: np_load.cases)
     (simp_all add: init_def exists_def load_model_def load_failed_def loaded_def empty_store_def)

lemma query_empty_store: "fst (query L (empty_store L) query_text n_results) = []"
  by (simp add: query_def empty_store_def)

text \<open>
  Claim C5. Loading succeeds only if all three artifacts exist and deserialise: then the
  object holds what they store. In every other case the constructor and \<open>load_model\<close>
  leave the empty, untrained store, no exception leaves them, and a query of the empty
  store with any text and any limit returns the empty list.
\<close>

theorem load_all_or_empty:
  "fst (init L dk) = (case loaded dk of Some s \<Rightarrow> s | None \<Rightarrow> empty_store L)
   \<and> fst (load_model L self dk) = (case loaded dk of Some s \<Rightarrow> s | None \<Rightarrow> empty_store L)
   \<and> fst (query L (empty_store L) query_text n_results) = []"
  by (simp add: init_loaded load_model_loaded query_empty_store)

theorem load_all_or_empty_witness:
  "fst (init prefix_lib (fever_disk\<lparr>documents_path := Corrupt\<rparr>))
     = \<lparr>vectorizer = False, document_data = [], vectors = None\<rparr>
   \<and> fst (load_model prefix_lib fever_store (fever_disk\<lparr>documents_path := Corrupt\<rparr>))
     = \<lparr>vectorizer = False, document_data = [], vectors = None\<rparr>
   \<and> fst (query prefix_lib \<lparr>vectorizer = False, document_data = [], vectors = None\<rparr>
            ''fever'' 5) = []"
  using load_all_or_empty [of prefix_lib "fever_disk\<lparr>documents_path := Corrupt\<rparr>"
      fever_store "''fever''" 5]
  by (simp add: loaded_def empty_store_def prefix_lib_def fever_disk_def)

text \<open>
  Claim C2, as stated, fails: \<open>load_model\<close> never compares the number of rows of the
  matrix with the number of records. From an artifact set with one record and two rows,
  each artifact deserialisable by itself, the constructor builds an object that violates
  the invariant.
\<close>

theorem load_does_not_compare_sizes_counterexample:
  "\<not> consistent (fst (init prefix_lib mismatched_disk))"
  by (simp add: consistent_def init_loaded loaded_def mismatched_disk_def)

text \<open>
  Claim C2, amended. When all three artifacts deserialise, the object after construction
  (and after \<open>load_model\<close>) holds exactly the stored vectorizer, the stored records in
  their order and the stored matrix: the load path compares records and matrix nowhere,
  so that this object is consistent exactly when the stored matrix has as many rows as
  there are stored records. Only an artifact set with a missing or undeserialisable part
  is treated as an absent index, and gives the empty store.
\<close>

theorem loaded_state_is_what_was_stored:
  "(\<forall>m d v. vectorizer_path dk = Stored m \<and> documents_path dk = Stored d \<and>
             vectors_path dk = Stored (ndarray v) \<longrightarrow>
        fst (init L dk) = \<lparr>vectorizer = m, document_data = d, vectors = Some (ndarray v)\<rparr> \<and>
        fst (load_model L self dk)
          = \<lparr>vectorizer = m, document_data = d, vectors = Some (ndarray v)\<rparr> \<and>
        (consistent (fst (init L dk)) \<longleftrightarrow> length v = length d))
   \<and> (\<not> (\<exists>m d v. vectorizer_path dk = Stored m \<and> documents_path dk = Stored d \<and>
                   vectors_path dk = Stored (ndarray v)) \<longrightarrow>
        fst (init L dk) = empty_store L \<and> fst (load_model L self dk) = empty_store L \<and>
        consistent (fst (init L dk)))"
  by (cases "vectorizer_path dk"; cases "documents_path dk";
      cases "vectors_path dk" rule: np_load.cases)
     (simp_all add: init_loaded load_model_loaded loaded_def consistent_def empty_store_def)

theorem loaded_state_is_what_was_stored_witness:
  "fst (init prefix_lib fever_disk) = fever_store
   \<and> fst (load_model prefix_lib indexed_store fever_disk) = fever_store
   \<and> consistent (fst (init prefix_lib fever_disk))"
proof -
  have a: "vectorizer_path fever_disk = Stored True \<and>
      documents_path fever_disk
        = Stored [chunk ''me_chunk_1'' ''fever'', chunk ''me_chunk_4'' ''feve''] \<and>
      vectors_path fever_disk = Stored (ndarray [''fever'', ''feve''])"
    by (simp add: fever_disk_def)
  have l: "length [''fever'', ''feve''] =
      length [chunk ''me_chunk_1'' ''fever'', chunk ''me_chunk_4'' ''feve'']"
    by simp
  from loaded_state_is_what_was_stored [of fever_disk prefix_lib indexed_store] a l
  show ?thesis
    unfolding fever_store_def by blast
qed

section \<open>Building the index from the corpus\<close>

lemma read_chunk_files_eq:
  "read_chunk_files fs docs dd evs =
     (docs @ map content (List.map_filter document_record fs),
      dd @ List.map_filter document_record fs,
      evs @ chunk_events fs)"
proof (induction fs arbitrary: docs dd evs)
  case Nil
  show ?case by simp
next
  case (Cons pf fs)
  obtain p f where pf: "pf = (p, f)" by (cases pf)
  show ?case
  proof (cases f)
    case (Unreadable e)
    then show ?thesis
      by (simp add: pf Cons.IH document_record_def)
  next
    case (Readable raw)
    then show ?thesis
      by (simp add: pf Cons.IH document_record_def Let_def)
  qed
qed

lemma load_documents_scan:
  assumes "force_reload \<or> count self = 0"
  shows "load_documents L DOCS_DIR entries w1 w2 w3 force_reload self dk =
     (let recs = List.map_filter document_record (glob DOCS_DIR entries);
          evs = scan_events DOCS_DIR entries force_reload
      in if recs = []
         then (None, reset force_reload self, dk, evs @ [Log WARNING No_documents_loaded])
         else
           (case fit_transform L (vectorizer (reset force_reload self)) (map content recs) of
              (m, Inl e) \<Rightarrow>
                (Some e, (reset force_reload self)\<lparr>vectorizer := m\<rparr>, dk,
                 evs @ [Fit_transform (map content recs)])
            | (m, Inr v) \<Rightarrow>
                (None,
                 (reset force_reload self)\<lparr>vectorizer := m, vectors := Some (csr_matrix v),
                                             document_data := recs\<rparr>,
                 fst (save_model w1 w2 w3
                        ((reset force_reload self)\<lparr>vectorizer := m, vectors := Some (csr_matrix v),
                                                    document_data := recs\<rparr>) dk),
                 evs @ [Fit_transform (map content recs)] @
                 snd (save_model w1 w2 w3
                        ((reset force_reload self)\<lparr>vectorizer := m, vectors := Some (csr_matrix v),
                                                    document_data := recs\<rparr>) dk) @
                 [Log INFO (Loaded_into_store (length recs))])))"
  using assms
  by (auto simp: load_documents_def read_chunk_files_eq Let_def reset_def scan_events_def
           split: prod.splits sum.splits)


lemma chunk_events_no_fit: "Fit_transform docs \<notin> set (chunk_events fs)"
  by (induction fs rule: chunk_events.induct) auto

lemma chunk_events_no_write:
  "Open_write_vectorizer \<notin> set (chunk_events fs) \<and>
   Open_write_documents \<notin> set (chunk_events fs) \<and>
   Open_write_vectors \<notin> set (chunk_events fs)"
  by (induction fs rule: chunk_events.induct) auto

lemma chunk_events_opened:
  "(p, f) \<in> set fs \<Longrightarrow> Open_read p \<in> set (chunk_events fs)"
  by (induction fs rule: chunk_events.induct) auto

lemma chunk_events_logged:
  "(p, Unreadable e) \<in> set fs \<Longrightarrow> Log ERROR (Error_reading_file p e) \<in> set (chunk_events fs)"
  by (induction fs rule: chunk_events.induct) auto

lemma prefix_lib_sel:
  "TfidfVectorizer prefix_lib = False"
  "fit_transform prefix_lib m docs = (True, Inr docs)"
  "transform prefix_lib m q = (if m then Inr q else Inl NotFittedError)"
  "cosine_similarity prefix_lib q rs = Inr (map (prefix_similarity q) rs)"
  "argsort prefix_lib = stable_argsort"
  by (simp_all add: prefix_lib_def)

lemma glob_sample_entries:
  "glob ''/docs/clean'' sample_entries =
     [(''/docs/clean/me_chunk_1.txt'', Readable '' fever ''),
      (''/docs/clean/me_chunk_2.txt'', Unreadable PermissionError),
      (''/docs/clean/me_chunk_3.txt'', Readable ''   ''),
      (''/docs/clean/me_chunk_4.txt'', Readable ''feve'')]"
  by (simp add: glob_def sample_entries_def fnmatch_def endswith_def join_def)

lemma sample_entries_records:
  "List.map_filter document_record (glob ''/docs/clean'' sample_entries) =
     [chunk ''me_chunk_1'' ''fever'', chunk ''me_chunk_4'' ''feve'']"
  by (simp add: glob_sample_entries document_record_def strip_def isspace_def chunk_def)

lemma unusable_entries_records:
  "List.map_filter document_record (glob ''/docs/clean'' unusable_entries) = []"
  by (simp add: glob_def unusable_entries_def fnmatch_def endswith_def document_record_def
        strip_def isspace_def join_def)

text \<open>
  Claim C1, as stated, fails: a scan that yields no usable document does not end with an
  error. \<open>load_documents\<close> takes the \<open>else\<close> branch of \<open>if documents\<close>, logs a warning and
  returns normally; no exception of any kind leaves it.
\<close>

theorem empty_corpus_not_an_error_counterexample:
  "fst (load_documents prefix_lib ''/docs/clean'' unusable_entries Succeeds Succeeds Succeeds
          False (empty_store prefix_lib) no_artifacts) = None"
  by (simp add: load_documents_def count_def empty_store_def glob_def unusable_entries_def
        fnmatch_def endswith_def strip_def isspace_def Let_def)

text \<open>
  Claim C1, amended. When the scan runs (the reload is forced, or the store has no
  documents) and yields no usable document, \<open>load_documents\<close> returns normally with a
  warning as its last log entry. It does not call \<open>fit_transform\<close> and opens no artifact for
  writing; the object is left as it was, but for the reset of a forced reload, and the
  disk is unchanged.
\<close>

theorem empty_corpus_returns_normally:
  assumes "force_reload \<or> count self = 0"
    and "List.map_filter document_record (glob DOCS_DIR entries) = []"
  shows "\<exists>evs. load_documents L DOCS_DIR entries w1 w2 w3 force_reload self dk =
            (None, reset force_reload self, dk, evs @ [Log WARNING No_documents_loaded])
          \<and> (\<forall>docs. Fit_transform docs \<notin> set evs)
          \<and> Open_write_vectorizer \<notin> set evs \<and> Open_write_documents \<notin> set evs
          \<and> Open_write_vectors \<notin> set evs"
proof (intro exI conjI)
  show "load_documents L DOCS_DIR entries w1 w2 w3 force_reload self dk =
          (None, reset force_reload self, dk,
           scan_events DOCS_DIR entries force_reload @ [Log WARNING No_documents_loaded])"
    using assms by (simp add: load_documents_scan)
  show "\<forall>docs. Fit_transform docs \<notin> set (scan_events DOCS_DIR entries force_reload)"
    by (simp add: scan_events_def chunk_events_no_fit)
  show "Open_write_vectorizer \<notin> set (scan_events DOCS_DIR entries force_reload)"
    by (simp add: scan_events_def chunk_events_no_write)
  show "Open_write_documents \<notin> set (scan_events DOCS_DIR entries force_reload)"
    by (simp add: scan_events_def chunk_events_no_write)
  show "Open_write_vectors \<notin> set (scan_events DOCS_DIR entries force_reload)"
    by (simp add: scan_events_def chunk_events_no_write)
qed

theorem empty_corpus_returns_normally_witness:
  "fst (load_documents prefix_lib ''/docs/clean'' unusable_entries Succeeds Succeeds Succeeds
          False (empty_store prefix_lib) no_artifacts) = None
   \<and> fst (snd (load_documents prefix_lib ''/docs/clean'' unusable_entries Succeeds Succeeds
                  Succeeds False (empty_store prefix_lib) no_artifacts))
       = empty_store prefix_lib
   \<and> fst (snd (snd (load_documents prefix_lib ''/docs/clean'' unusable_entries Succeeds
                  Succeeds Succeeds False (empty_store prefix_lib) no_artifacts)))
       = no_artifacts"
proof -
  have c: "False \<or> count (empty_store prefix_lib) = 0"
    by (simp add: count_def empty_store_def)
  from empty_corpus_returns_normally [OF c unusable_entries_records,
         where L = prefix_lib and ?w1.0 = Succeeds and ?w2.0 = Succeeds and ?w3.0 = Succeeds
           and dk = no_artifacts]
  show ?thesis by (auto simp: reset_def)
qed

text \<open>What holds of a forced reload that finds no usable document, whatever the library
  and the disk: it returns normally and leaves an object with no documents, which every
  query answers with the empty list, and the disk is exactly what it was.\<close>

lemma forced_reload_of_empty_corpus:
  assumes "List.map_filter document_record (glob DOCS_DIR entries) = []"
  shows "fst (load_documents L DOCS_DIR entries w1 w2 w3 True self dk) = None
     \<and> count (fst (snd (load_documents L DOCS_DIR entries w1 w2 w3 True self dk))) = 0
     \<and> fst (query L (fst (snd (load_documents L DOCS_DIR entries w1 w2 w3 True self dk)))
              query_text n_results) = []
     \<and> fst (snd (snd (load_documents L DOCS_DIR entries w1 w2 w3 True self dk))) = dk"
  using assms
  by (simp add: load_documents_scan reset_def count_def query_def)

text \<open>The artifact set that \<open>load_documents\<close> has built and saved, every write succeeding, is
  not loaded by a store constructed afterwards: the matrix in memory is the sparse
  matrix of \<open>fit_transform\<close>, \<open>np.save\<close> pickles it, \<open>np.load\<close> raises on the file, and
  \<open>load_model\<close> resets the object.\<close>

lemma built_index_is_not_loaded_back:
  assumes "force_reload \<or> count self = 0"
    and "List.map_filter document_record (glob DOCS_DIR entries) \<noteq> []"
    and "fst (load_documents L DOCS_DIR entries Succeeds Succeeds Succeeds force_reload self dk)
           = None"
  shows "fst (init L (fst (snd (snd
           (load_documents L DOCS_DIR entries Succeeds Succeeds Succeeds force_reload self dk)))))
         = empty_store L"
  using assms(2,3)
  by (auto simp: load_documents_scan [OF assms(1)] Let_def save_model_def init_loaded loaded_def
           split: prod.splits sum.splits)

lemma first_build_result:
  "fst first_build = None \<and> fst (snd first_build) = indexed_store \<and>
   fst (snd (snd first_build)) = indexed_disk"
proof -
  have s: "fst (init prefix_lib no_artifacts) = empty_store prefix_lib"
    by (simp add: init_loaded loaded_def no_artifacts_def)
  have c: "False \<or> count (empty_store prefix_lib) = 0"
    by (simp add: count_def empty_store_def)
  show ?thesis
    unfolding first_build_def s
    by (subst load_documents_scan [OF c])+
       (simp add: sample_entries_records prefix_lib_sel Let_def reset_def empty_store_def
          save_model_def indexed_store_def indexed_disk_def no_artifacts_def chunk_def)
qed

text \<open>
  Claim C10 at a concrete run. A new store builds and saves the index of two documents.
  The corpus then has no usable file left and the store reloads with \<open>force_reload\<close>: it
  returns normally, its index is empty and the disk still holds the three artifacts of
  the first build, untouched. A store constructed on that disk does not hold the old
  index: it is the empty store, because \<open>np.load\<close> raises on the vectors file that
  \<open>save_model\<close> wrote.
\<close>

theorem new_store_after_reload_is_empty:
  "count (fst (snd first_build)) = 2
   \<and> fst (snd (snd first_build)) = indexed_disk
   \<and> fst reload_of_emptied_corpus = None
   \<and> count (fst (snd reload_of_emptied_corpus)) = 0
   \<and> fst (snd (snd reload_of_emptied_corpus)) = indexed_disk
   \<and> fst (init prefix_lib (fst (snd (snd reload_of_emptied_corpus)))) = empty_store prefix_lib"
proof -
  have r: "fst reload_of_emptied_corpus = None
      \<and> count (fst (snd reload_of_emptied_corpus)) = 0
      \<and> fst (snd (snd reload_of_emptied_corpus)) = indexed_disk"
    using forced_reload_of_empty_corpus [OF unusable_entries_records,
            of prefix_lib Succeeds Succeeds Succeeds indexed_store indexed_disk "''fever''" 5]
    by (simp add: reload_of_emptied_corpus_def first_build_result)
  have i: "fst (init prefix_lib indexed_disk) = empty_store prefix_lib"
    by (simp add: init_loaded loaded_def indexed_disk_def)
  have c: "count indexed_store = 2"
    by (simp add: count_def indexed_store_def)
  show ?thesis
    using r i c by (simp add: first_build_result)
qed

text \<open>
  Claim C9. When the scan runs, the records of the new index are those of the matching
  files that can be read and whose text is not empty after trimming, in the order of
  enumeration. Every matching file is opened, whatever happened to the files before it,
  and each file that cannot be read is logged. Only an exception of \<open>fit_transform\<close> can
  end the load early.
\<close>

theorem records_for_readable_nonblank_chunks:
  assumes "force_reload \<or> count self = 0"
  shows "(fst (load_documents L DOCS_DIR entries w1 w2 w3 force_reload self dk) = None \<longrightarrow>
            document_data (fst (snd (load_documents L DOCS_DIR entries w1 w2 w3 force_reload self dk)))
              = List.map_filter document_record (glob DOCS_DIR entries))
     \<and> (\<forall>p f. (document_record (p, f) \<noteq> None) = (\<exists>raw. f = Readable raw \<and> strip raw \<noteq> []))
     \<and> (\<forall>p f. (p, f) \<in> set (glob DOCS_DIR entries) \<longrightarrow>
            Open_read p \<in> set (snd (snd (snd
              (load_documents L DOCS_DIR entries w1 w2 w3 force_reload self dk)))))
     \<and> (\<forall>p e. (p, Unreadable e) \<in> set (glob DOCS_DIR entries) \<longrightarrow>
            Log ERROR (Error_reading_file p e) \<in> set (snd (snd (snd
              (load_documents L DOCS_DIR entries w1 w2 w3 force_reload self dk)))))
     \<and> (\<forall>e. fst (load_documents L DOCS_DIR entries w1 w2 w3 force_reload self dk) = Some e \<longrightarrow>
            snd (fit_transform L (vectorizer self)
                   (map content (List.map_filter document_record (glob DOCS_DIR entries))))
              = Inl e)"
proof (intro conjI)
  let ?r = "load_documents L DOCS_DIR entries w1 w2 w3 force_reload self dk"
  let ?recs = "List.map_filter document_record (glob DOCS_DIR entries)"
  have v: "vectorizer (reset force_reload self) = vectorizer self"
    by (simp add: reset_def)
  have d: "?recs = [] \<Longrightarrow> document_data (reset force_reload self) = []"
    using assms by (auto simp: reset_def count_def)
  show "fst ?r = None \<longrightarrow> document_data (fst (snd ?r)) = ?recs"
    using d by (auto simp: load_documents_scan [OF assms] Let_def split: prod.splits sum.splits)
  show "\<forall>p f. (document_record (p, f) \<noteq> None) = (\<exists>raw. f = Readable raw \<and> strip raw \<noteq> [])"
    by (auto simp: document_record_def split: chunk_file.splits)
  have sub: "set (chunk_events (glob DOCS_DIR entries)) \<subseteq> set (snd (snd (snd ?r)))"
    by (auto simp: load_documents_scan [OF assms] Let_def scan_events_def
             split: prod.splits sum.splits)
  show "\<forall>p f. (p, f) \<in> set (glob DOCS_DIR entries) \<longrightarrow> Open_read p \<in> set (snd (snd (snd ?r)))"
    using sub chunk_events_opened by blast
  show "\<forall>p e. (p, Unreadable e) \<in> set (glob DOCS_DIR entries) \<longrightarrow>
          Log ERROR (Error_reading_file p e) \<in> set (snd (snd (snd ?r)))"
    using sub chunk_events_logged by blast
  show "\<forall>e. fst ?r = Some e \<longrightarrow> snd (fit_transform L (vectorizer self) (map content ?recs)) = Inl e"
    by (auto simp: load_documents_scan [OF assms] v Let_def split: prod.splits sum.splits)
qed


theorem records_for_readable_nonblank_chunks_witness:
  "document_data (fst (snd (load_documents prefix_lib ''/docs/clean'' sample_entries
       Succeeds Succeeds Succeeds False (empty_store prefix_lib) no_artifacts)))
     = [chunk ''me_chunk_1'' ''fever'', chunk ''me_chunk_4'' ''feve'']
   \<and> Log ERROR (Error_reading_file ''/docs/clean/me_chunk_2.txt'' PermissionError)
       \<in> set (snd (snd (snd (load_documents prefix_lib ''/docs/clean'' sample_entries
            Succeeds Succeeds Succeeds False (empty_store prefix_lib) no_artifacts))))
   \<and> Open_read ''/docs/clean/me_chunk_4.txt''
       \<in> set (snd (snd (snd (load_documents prefix_lib ''/docs/clean'' sample_entries
            Succeeds Succeeds Succeeds False (empty_store prefix_lib) no_artifacts))))"
proof -
  have c: "False \<or> count (empty_store prefix_lib) = 0"
    by (simp add: count_def empty_store_def)
  have n: "fst (load_documents prefix_lib ''/docs/clean'' sample_entries
             Succeeds Succeeds Succeeds False (empty_store prefix_lib) no_artifacts) = None"
    by (subst load_documents_scan [OF c])
       (simp add: sample_entries_records prefix_lib_sel Let_def)
  have m: "(''/docs/clean/me_chunk_2.txt'', Unreadable PermissionError)
             \<in> set (glob ''/docs/clean'' sample_entries)"
     "(''/docs/clean/me_chunk_4.txt'', Readable ''feve'')
             \<in> set (glob ''/docs/clean'' sample_entries)"
    by (simp_all add: glob_sample_entries)
  from records_for_readable_nonblank_chunks [OF c, of prefix_lib "''/docs/clean''"
         sample_entries Succeeds Succeeds Succeeds no_artifacts]
  show ?thesis using n m sample_entries_records by auto
qed

text \<open>
  Claim C8. Without \<open>force_reload\<close>, on a store that has documents, \<open>load_documents\<close>
  returns at once: the object and the disk are unchanged, and the only event is one log
  entry (no enumeration of the directory, no file read, no fit, no write).
\<close>

theorem reload_without_force_is_noop:
  assumes "0 < count self"
  shows "load_documents L DOCS_DIR entries w1 w2 w3 False self dk
           = (None, self, dk, [Log INFO (Already_contains (count self))])"
  using assms by (simp add: load_documents_def)

theorem reload_without_force_is_noop_witness:
  "load_documents prefix_lib ''/docs/clean'' sample_entries
      Succeeds Succeeds Succeeds False fever_store no_artifacts
     = (None, fever_store, no_artifacts, [Log INFO (Already_contains 2)])"
proof -
  have c: "count fever_store = 2" by (simp add: count_def fever_store_def)
  then have "0 < count fever_store" by simp
  from reload_without_force_is_noop [OF this] show ?thesis by (simp add: c)
qed

section \<open>Saving the index\<close>

lemma save_model_all_succeed:
  "fst (save_model Succeeds Succeeds Succeeds self dk) =
     dk\<lparr>vectorizer_path := Stored (vectorizer self),
        documents_path := Stored (document_data self),
        vectors_path := (case vectors self of None \<Rightarrow> vectors_path dk | Some v \<Rightarrow> Stored v)\<rparr>"
  by (cases "vectors self") (simp_all add: save_model_def)

lemma save_model_failure_logged:
  assumes "w1 \<noteq> Succeeds \<or> w2 \<noteq> Succeeds \<or> (vectors self \<noteq> None \<and> w3 \<noteq> Succeeds)"
  shows "\<exists>e. last (snd (save_model w1 w2 w3 self dk)) = Log ERROR (Error_saving_model e)"
  using assms
  by (cases w1; cases w2; cases w3; cases "vectors self") (simp_all add: save_model_def)

lemma load_documents_memory_independent_of_writes:
  "fst (load_documents L D entries w1 w2 w3 force self dk) =
     fst (load_documents L D entries w1' w2' w3' force self dk)
   \<and> fst (snd (load_documents L D entries w1 w2 w3 force self dk)) =
     fst (snd (load_documents L D entries w1' w2' w3' force self dk))"
  by (simp add: load_documents_def Let_def split: prod.splits sum.splits)

text \<open>
  Claim C6, as stated, fails in its first part: \<open>save_model\<close> writes the matrix only
  \<open>if self.vectors is not None\<close>. Saving the empty store with every write succeeding
  leaves no vectors artifact.
\<close>

theorem save_skips_absent_matrix_counterexample:
  "vectors_path (fst (save_model Succeeds Succeeds Succeeds (empty_store prefix_lib) no_artifacts))
     = Absent"
  by (simp add: save_model_def empty_store_def no_artifacts_def)

text \<open>
  Claim C6, amended. When every write succeeds, \<open>save_model\<close> stores the vectorizer and
  the document records, and the matrix when the object has one (the vectors artifact is
  left as it was otherwise). The file holds the matrix as \<open>np.save\<close> serialises it; for the
  sparse matrix of a fitted index that is the pickled object array, which
  \<open>built_index_is_not_loaded_back\<close> shows is not read back. A write that fails is logged as the last event, and no
  exception leaves \<open>save_model\<close>, which returns only the disk and its events. The object
  is not changed by saving: what \<open>load_documents\<close> returns and the object it leaves are
  the same however the writes of its \<open>save_model\<close> end.
\<close>

theorem save_model_best_effort:
  "fst (save_model Succeeds Succeeds Succeeds self dk) =
     dk\<lparr>vectorizer_path := Stored (vectorizer self),
        documents_path := Stored (document_data self),
        vectors_path := (case vectors self of None \<Rightarrow> vectors_path dk | Some v \<Rightarrow> Stored v)\<rparr>
   \<and> (w1 \<noteq> Succeeds \<or> w2 \<noteq> Succeeds \<or> (vectors self \<noteq> None \<and> w3 \<noteq> Succeeds) \<longrightarrow>
        (\<exists>e. last (snd (save_model w1 w2 w3 self dk)) = Log ERROR (Error_saving_model e)))
   \<and> fst (load_documents L DOCS_DIR entries w1 w2 w3 force_reload self dk) =
       fst (load_documents L DOCS_DIR entries Succeeds Succeeds Succeeds force_reload self dk)
   \<and> fst (snd (load_documents L DOCS_DIR entries w1 w2 w3 force_reload self dk)) =
       fst (snd (load_documents L DOCS_DIR entries Succeeds Succeeds Succeeds force_reload self dk))"
  using save_model_all_succeed save_model_failure_logged
    load_documents_memory_independent_of_writes [of L DOCS_DIR entries w1 w2 w3 force_reload self dk]
  by blast

theorem save_model_best_effort_witness:
  "last (snd (save_model Succeeds (DumpFails OSError) Succeeds indexed_store no_artifacts))
     = Log ERROR (Error_saving_model OSError)
   \<and> fst (snd (load_documents prefix_lib ''/docs/clean'' sample_entries
                  Succeeds (DumpFails OSError) Succeeds True indexed_store no_artifacts))
       = indexed_store
   \<and> fst (load_documents prefix_lib ''/docs/clean'' sample_entries
            Succeeds (DumpFails OSError) Succeeds True indexed_store no_artifacts) = None"
proof -
  have c: "True \<or> count indexed_store = 0" by simp
  have a: "fst (snd (load_documents prefix_lib ''/docs/clean'' sample_entries
                  Succeeds Succeeds Succeeds True indexed_store no_artifacts)) = indexed_store"
    by (subst load_documents_scan [OF c])
       (simp add: sample_entries_records prefix_lib_sel Let_def reset_def indexed_store_def
          chunk_def)
  have b: "fst (load_documents prefix_lib ''/docs/clean'' sample_entries
                  Succeeds Succeeds Succeeds True indexed_store no_artifacts) = None"
    by (subst load_documents_scan [OF c])
       (simp add: sample_entries_records prefix_lib_sel Let_def)
  have l: "last (snd (save_model Succeeds (DumpFails OSError) Succeeds indexed_store no_artifacts))
             = Log ERROR (Error_saving_model OSError)"
    by (simp add: save_model_def)
  from save_model_best_effort [of indexed_store no_artifacts Succeeds "DumpFails OSError" Succeeds
         prefix_lib "''/docs/clean''" sample_entries True]
  show ?thesis using a b l by simp
qed

section \<open>Answering queries\<close>

lemma collect_results_Inr:
  "collect_results sims docs idxs = Inr rs \<Longrightarrow>
     rs = map (\<lambda>i. result_of (docs ! i) (sims ! i)) (filter (\<lambda>i. 0 < sims ! i) idxs)
     \<and> (\<forall>i \<in> set idxs. i < length sims)"
  by (induction idxs arbitrary: rs) (auto split: if_splits sum.splits)

lemma query_cases:
  "fst (query L self q n) = [] \<or>
   (\<exists>v qv sims. vectors self = Some v \<and> transform L (vectorizer self) q = Inr qv \<and>
      cosine_similarity L qv (rows v) = Inr sims \<and>
      (\<forall>i \<in> set (top_indices L sims n). i < length sims) \<and>
      fst (query L self q n) =
        map (\<lambda>i. result_of (document_data self ! i) (sims ! i))
            (filter (\<lambda>i. 0 < sims ! i) (top_indices L sims n)))"
  by (auto simp: query_def query_failed_def dest: collect_results_Inr split: option.splits sum.splits)

lemma query_shape:
  assumes "vectors self = Some v" "transform L (vectorizer self) q = Inr qv"
    "cosine_similarity L qv (rows v) = Inr sims"
  shows "fst (query L self q n) = [] \<or>
      (\<forall>i \<in> set (top_indices L sims n). i < length sims) \<and>
      fst (query L self q n) =
        map (\<lambda>i. result_of (document_data self ! i) (sims ! i))
            (filter (\<lambda>i. 0 < sims ! i) (top_indices L sims n))"
  using assms
  by (auto simp: query_def query_failed_def dest: collect_results_Inr split: option.splits sum.splits)

lemma similarity_result_of: "similarity (result_of d s) = s"
  by (simp add: result_of_def)

lemma top_indices_descending:
  assumes "sorted (map ((!) sims) (argsort L sims))"
  shows "sorted_wrt (\<lambda>i j. sims ! j \<le> sims ! i) (top_indices L sims n)"
proof -
  have "sorted_wrt (\<lambda>i j. sims ! i \<le> sims ! j) (argsort L sims)"
    using assms by (simp add: sorted_map)
  then have "sorted_wrt (\<lambda>i j. sims ! i \<le> sims ! j) (slice_last n (argsort L sims))"
    by (simp add: slice_last_def)
  then show ?thesis
    by (simp add: top_indices_def sorted_wrt_rev)
qed


lemma top_indices_subseq: "subseq (top_indices L sims n) (rev (argsort L sims))"
proof -
  have "prefix (rev (slice_last n (argsort L sims))) (rev (argsort L sims))"
    by (simp add: slice_last_def rev_drop take_is_prefix)
  then show ?thesis
    by (simp add: top_indices_def prefix_imp_subseq)
qed

lemma top_indices_strict:
  assumes "sorted_wrt (\<lambda>i j. sims ! i < sims ! j \<or> (sims ! i = sims ! j \<and> i < j))
             (argsort L sims)"
  shows "sorted_wrt (\<lambda>i j. sims ! j < sims ! i \<or> (sims ! i = sims ! j \<and> j < i))
             (top_indices L sims n)"
proof -
  have "sorted_wrt (\<lambda>i j. sims ! i < sims ! j \<or> (sims ! i = sims ! j \<and> i < j))
          (slice_last n (argsort L sims))"
    using assms by (simp add: slice_last_def)
  then have "sorted_wrt (\<lambda>j i. sims ! i < sims ! j \<or> (sims ! i = sims ! j \<and> i < j))
          (top_indices L sims n)"
    by (simp add: top_indices_def sorted_wrt_rev)
  then show ?thesis
    by (rule sorted_wrt_mono_rel [rotated]) auto
qed

lemma stable_argsort_ascending: "sorted (map ((!) xs) (stable_argsort xs))"
proof -
  let ?ys = "sort_key fst (zip xs [0..<length xs])"
  have "xs ! snd p = fst p" if "p \<in> set ?ys" for p
  proof -
    from that have "p \<in> set (zip xs [0..<length xs])" by simp
    then show ?thesis by (auto simp: in_set_zip)
  qed
  then have eq: "map (\<lambda>p. xs ! snd p) ?ys = map fst ?ys"
    by (intro map_cong refl) simp
  have "sorted (map fst ?ys)"
    by (rule sorted_sort_key)
  then have "sorted (map (\<lambda>p. xs ! snd p) ?ys)"
    by (simp only: eq)
  then show ?thesis
    by (simp add: stable_argsort_def comp_def)
qed

lemma query_fever:
  "fst (query prefix_lib fever_store ''fever'' 5) =
     [result_of (chunk ''me_chunk_1'' ''fever'') 1,
      result_of (chunk ''me_chunk_4'' ''feve'') (4 / 5)]"
  by (simp add: query_def fever_store_def prefix_lib_sel top_indices_def stable_argsort_def
        slice_last_def prefix_similarity_def)

lemma query_tie:
  "fst (query prefix_lib tie_store ''cough'' 5) =
     [result_of (chunk ''me_chunk_2'' ''cough wet'') (5 / 9),
      result_of (chunk ''me_chunk_1'' ''cough dry'') (5 / 9)]"
  by (simp add: query_def tie_store_def prefix_lib_sel top_indices_def stable_argsort_def
        slice_last_def prefix_similarity_def)

text \<open>
  Claim C7. Whenever \<open>argsort\<close> lists the indices of its argument by ascending value (what
  numpy's \<open>argsort\<close> does on an array without NaN), the similarities of the results of
  every query are non-increasing from each rank to the next.
\<close>

theorem query_similarities_nonincreasing:
  assumes "\<forall>xs. sorted (map ((!) xs) (argsort L xs))"
  shows "\<forall>i. Suc i < length (fst (query L self query_text n_results)) \<longrightarrow>
           similarity (fst (query L self query_text n_results) ! Suc i)
             \<le> similarity (fst (query L self query_text n_results) ! i)"
proof -
  let ?rs = "fst (query L self query_text n_results)"
  have "sorted_wrt (\<lambda>a b. similarity b \<le> similarity a) ?rs"
    using query_cases [of L self query_text n_results]
  proof
    assume "?rs = []"
    then show ?thesis by simp
  next
    assume "\<exists>v qv sims. vectors self = Some v \<and> transform L (vectorizer self) query_text = Inr qv \<and>
      cosine_similarity L qv (rows v) = Inr sims \<and>
      (\<forall>i \<in> set (top_indices L sims n_results). i < length sims) \<and>
      ?rs = map (\<lambda>i. result_of (document_data self ! i) (sims ! i))
              (filter (\<lambda>i. 0 < sims ! i) (top_indices L sims n_results))"
    then obtain sims where
      rs: "?rs = map (\<lambda>i. result_of (document_data self ! i) (sims ! i))
              (filter (\<lambda>i. 0 < sims ! i) (top_indices L sims n_results))"
      by blast
    have "sorted_wrt (\<lambda>i j. sims ! j \<le> sims ! i) (top_indices L sims n_results)"
      using assms by (simp add: top_indices_descending)
    then have "sorted_wrt (\<lambda>i j. sims ! j \<le> sims ! i)
                 (filter (\<lambda>i. 0 < sims ! i) (top_indices L sims n_results))"
      by (rule sorted_wrt_filter)
    then show ?thesis
      by (simp add: rs sorted_wrt_map similarity_result_of)
  qed
  then show ?thesis
    by (simp add: sorted_wrt_iff_nth_less)
qed

theorem query_similarities_nonincreasing_witness:
  "length (fst (query prefix_lib fever_store ''fever'' 5)) = 2
   \<and> similarity (fst (query prefix_lib fever_store ''fever'' 5) ! Suc 0)
       \<le> similarity (fst (query prefix_lib fever_store ''fever'' 5) ! 0)"
proof -
  have a: "\<forall>xs. sorted (map ((!) xs) (argsort prefix_lib xs))"
    by (simp add: prefix_lib_sel stable_argsort_ascending)
  have l: "length (fst (query prefix_lib fever_store ''fever'' 5)) = 2"
    by (simp add: query_fever)
  from query_similarities_nonincreasing [OF a, of fever_store "''fever''" 5]
  show ?thesis using l by simp
qed

text \<open>
  Claim C4. Every result of every query has a similarity above zero, whatever the library
  functions return and however many results were asked for; and when no document has a
  positive similarity to the query (as for a query outside the vocabulary, whose vector
  is zero), the query returns no result.
\<close>

theorem query_results_positive:
  "(\<forall>r \<in> set (fst (query L self query_text n_results)). 0 < similarity r)
   \<and> (\<forall>v qv sims. vectors self = Some v \<and> transform L (vectorizer self) query_text = Inr qv \<and>
         cosine_similarity L qv (rows v) = Inr sims \<and> (\<forall>s \<in> set sims. s \<le> 0)
         \<longrightarrow> fst (query L self query_text n_results) = [])"
proof (intro conjI allI impI)
  show "\<forall>r \<in> set (fst (query L self query_text n_results)). 0 < similarity r"
    using query_cases [of L self query_text n_results]
    by (auto simp: similarity_result_of)
next
  fix v qv sims
  assume a: "vectors self = Some v \<and> transform L (vectorizer self) query_text = Inr qv \<and>
         cosine_similarity L qv (rows v) = Inr sims \<and> (\<forall>s \<in> set sims. s \<le> 0)"
  then have "fst (query L self query_text n_results) = [] \<or>
      (\<forall>i \<in> set (top_indices L sims n_results). i < length sims) \<and>
      fst (query L self query_text n_results) =
        map (\<lambda>i. result_of (document_data self ! i) (sims ! i))
            (filter (\<lambda>i. 0 < sims ! i) (top_indices L sims n_results))"
    by (intro query_shape) auto
  moreover have "\<forall>i \<in> set (top_indices L sims n_results). i < length sims \<Longrightarrow>
      filter (\<lambda>i. 0 < sims ! i) (top_indices L sims n_results) = []"
  proof -
    assume r: "\<forall>i \<in> set (top_indices L sims n_results). i < length sims"
    have "\<not> 0 < sims ! i" if "i \<in> set (top_indices L sims n_results)" for i
    proof -
      have "sims ! i \<in> set sims" using r that by simp
      then have "sims ! i \<le> 0" using a by blast
      then show ?thesis by simp
    qed
    then show ?thesis by (simp add: filter_empty_conv)
  qed
  ultimately show "fst (query L self query_text n_results) = []" by auto
qed

theorem query_results_positive_witness:
  "list_all (\<lambda>r. 0 < similarity r) (fst (query prefix_lib fever_store ''fever'' 5))
   \<and> fst (query prefix_lib fever_store ''fever'' 5) \<noteq> []
   \<and> fst (query prefix_lib fever_store ''cough'' 5) = []"
proof -
  have p: "list_all (\<lambda>r. 0 < similarity r) (fst (query prefix_lib fever_store ''fever'' 5))"
    using query_results_positive [of prefix_lib fever_store "''fever''" 5]
    by (simp add: list_all_iff)
  have v: "vectors fever_store = Some (ndarray [''fever'', ''feve''])"
    by (simp add: fever_store_def)
  have t: "transform prefix_lib (vectorizer fever_store) ''cough'' = Inr ''cough''"
    by (simp add: prefix_lib_sel fever_store_def)
  have c: "cosine_similarity prefix_lib ''cough'' (rows (ndarray [''fever'', ''feve'']))
             = Inr [0, 0]"
    by (simp add: prefix_lib_sel prefix_similarity_def)
  have z: "\<forall>s \<in> set [0, 0 :: real]. s \<le> 0" by simp
  have e: "fst (query prefix_lib fever_store ''cough'' 5) = []"
    using query_results_positive [of prefix_lib fever_store "''cough''" 5] v t c z by blast
  show ?thesis using p e by (simp add: query_fever)
qed

text \<open>
  Claim C3, as stated, fails in its second part. The ranking is
  \<open>similarities.argsort()[-n_results:][::-1]\<close>: the reversal that turns the ascending order
  into a descending one also reverses the order of equal similarities. With an \<open>argsort\<close>
  that keeps equal values in index order, two documents of equal similarity are returned
  with the later document first.
\<close>

theorem ties_in_reverse_document_order_counterexample:
  "map id' (document_data tie_store) = [''me_chunk_1'', ''me_chunk_2'']
   \<and> map id' (fst (query prefix_lib tie_store ''cough'' 5)) = [''me_chunk_2'', ''me_chunk_1'']
   \<and> map similarity (fst (query prefix_lib tie_store ''cough'' 5)) = [5 / 9, 5 / 9]"
proof -
  have "map id' (document_data tie_store) = [''me_chunk_1'', ''me_chunk_2'']"
    by (simp add: tie_store_def chunk_def)
  then show ?thesis
    by (simp add: query_tie result_of_def chunk_def)
qed

text \<open>
  Claim C3, amended. When \<open>argsort\<close> lists the indices by ascending similarity, the
  results are ordered by descending similarity, and they follow the reverse of the order
  in which \<open>argsort\<close> lists their documents; results of equal similarity are therefore in
  the reverse of the order \<open>argsort\<close> gives them, and when \<open>argsort\<close> keeps equal values in
  index order, in descending order of their position in the document-record sequence.
\<close>

theorem query_ties_follow_argsort_reversed:
  assumes "vectors self = Some v" "transform L (vectorizer self) query_text = Inr qv"
    "cosine_similarity L qv (rows v) = Inr sims"
    and "sorted (map ((!) sims) (argsort L sims))"
  shows "\<exists>idxs. subseq idxs (rev (argsort L sims))
     \<and> fst (query L self query_text n_results) =
         map (\<lambda>i. result_of (document_data self ! i) (sims ! i)) idxs
     \<and> sorted_wrt (\<lambda>i j. sims ! j \<le> sims ! i) idxs
     \<and> (sorted_wrt (\<lambda>i j. sims ! i < sims ! j \<or> (sims ! i = sims ! j \<and> i < j))
           (argsort L sims) \<longrightarrow>
         sorted_wrt (\<lambda>i j. sims ! j < sims ! i \<or> (sims ! i = sims ! j \<and> j < i)) idxs)"
proof -
  let ?rs = "fst (query L self query_text n_results)"
  let ?idxs = "filter (\<lambda>i. 0 < sims ! i) (top_indices L sims n_results)"
  from query_shape [OF assms(1-3), of n_results]
  show ?thesis
  proof
    assume "?rs = []"
    then show ?thesis by (intro exI [of _ "[]"]) simp
  next
    assume "(\<forall>i \<in> set (top_indices L sims n_results). i < length sims) \<and>
      ?rs = map (\<lambda>i. result_of (document_data self ! i) (sims ! i)) ?idxs"
    then have rs: "?rs = map (\<lambda>i. result_of (document_data self ! i) (sims ! i)) ?idxs"
      by simp
    have s: "subseq ?idxs (rev (argsort L sims))"
      using top_indices_subseq [of L sims n_results] subseq_filter_left subseq_order.trans
      by blast
    have d: "sorted_wrt (\<lambda>i j. sims ! j \<le> sims ! i) ?idxs"
      using assms(4) by (intro sorted_wrt_filter top_indices_descending)
    have t: "sorted_wrt (\<lambda>i j. sims ! i < sims ! j \<or> (sims ! i = sims ! j \<and> i < j))
           (argsort L sims) \<longrightarrow>
         sorted_wrt (\<lambda>i j. sims ! j < sims ! i \<or> (sims ! i = sims ! j \<and> j < i)) ?idxs"
      by (auto intro: sorted_wrt_filter top_indices_strict)
    show ?thesis
      using rs s d t by (intro exI [of _ ?idxs]) simp
  qed
qed


theorem query_ties_follow_argsort_reversed_witness:
  "\<exists>idxs. subseq idxs (rev (stable_argsort tie_similarities))
     \<and> fst (query prefix_lib tie_store ''cough'' 5) =
         map (\<lambda>i. result_of (document_data tie_store ! i) (tie_similarities ! i)) idxs
     \<and> sorted_wrt (\<lambda>i j. tie_similarities ! j < tie_similarities ! i \<or>
                     (tie_similarities ! i = tie_similarities ! j \<and> j < i)) idxs"
proof -
  have v: "vectors tie_store = Some (csr_matrix [''cough dry'', ''cough wet''])"
    by (simp add: tie_store_def)
  have t: "transform prefix_lib (vectorizer tie_store) ''cough'' = Inr ''cough''"
    by (simp add: prefix_lib_sel tie_store_def)
  have c: "cosine_similarity prefix_lib ''cough'' (rows (csr_matrix [''cough dry'', ''cough wet'']))
             = Inr tie_similarities"
    by (simp add: prefix_lib_sel prefix_similarity_def tie_similarities_def)
  have a: "sorted (map ((!) tie_similarities) (argsort prefix_lib tie_similarities))"
    by (simp add: prefix_lib_sel stable_argsort_ascending)
  have s: "sorted_wrt (\<lambda>i j. tie_similarities ! i < tie_similarities ! j \<or>
                     (tie_similarities ! i = tie_similarities ! j \<and> i < j))
             (argsort prefix_lib tie_similarities)"
    by (simp add: prefix_lib_sel stable_argsort_def tie_similarities_def)
  from query_ties_follow_argsort_reversed [OF v t c a, of 5] s
  show ?thesis by (auto simp: prefix_lib_sel)
qed

end
